theory Spec2Isabelle
  imports Main
begin

section \<open>Python strings and exceptions\<close>

text \<open>
  A Python \<open>str\<close> is modelled as a \<^typ>\<open>string\<close> whose characters are the code points
  below 256, so \<^const>\<open>length\<close> is Python's \<open>len\<close>.  \<open>str.lower\<close> and \<open>str.isspace\<close> are
  written out for exactly that range.
\<close>

definition nl :: string where
  "nl = [CHR 0x0A]"

definition lower_char :: "char \<Rightarrow> char" where
  "lower_char c =
     (let n = (of_char c :: nat)
      in if (65 \<le> n \<and> n \<le> 90) \<or> (192 \<le> n \<and> n \<le> 222 \<and> n \<noteq> 215)
         then char_of (n + 32) else c)"

definition lower :: "string \<Rightarrow> string" where
  "lower s = map lower_char s"

definition isspace :: "char \<Rightarrow> bool" where
  "isspace c =
     (let n = (of_char c :: nat)
      in (9 \<le> n \<and> n \<le> 13) \<or> (28 \<le> n \<and> n \<le> 32) \<or> n = 133 \<or> n = 160)"

definition strip :: "string \<Rightarrow> string" where
  "strip s = rev (dropWhile isspace (rev (dropWhile isspace s)))"

text \<open>Python's \<open>needle in haystack\<close> on strings: a scan for the first position where
  the needle is a prefix of the rest.\<close>

fun startswith :: "string \<Rightarrow> string \<Rightarrow> bool" where
  "startswith s [] = True"
| "startswith [] (k # ks) = False"
| "startswith (c # cs) (k # ks) = (c = k \<and> startswith cs ks)"

fun str_in :: "string \<Rightarrow> string \<Rightarrow> bool" where
  "str_in k [] = (k = [])"
| "str_in k (c # cs) = (startswith (c # cs) k \<or> str_in k cs)"

text \<open>\<open>sep.join(parts)\<close>.\<close>

fun join :: "string \<Rightarrow> string list \<Rightarrow> string" where
  "join sep [] = []"
| "join sep [x] = x"
| "join sep (x # y # ys) = x @ sep @ join sep (y # ys)"

text \<open>\<open>str(n)\<close> for an integer, in decimal.\<close>

definition digit_char :: "nat \<Rightarrow> char" where
  "digit_char d = char_of (48 + d)"

fun str_nat :: "nat \<Rightarrow> string" where
  "str_nat n = (if n < 10 then [digit_char n] else str_nat (n div 10) @ [digit_char (n mod 10)])"

declare str_nat.simps [simp del]

definition str_int :: "int \<Rightarrow> string" where
  "str_int i = (if i < 0 then ''-'' @ str_nat (nat (- i)) else str_nat (nat i))"

text \<open>
  The exceptions the two scripts raise or let through, all subclasses of Python's
  \<open>Exception\<close>; each carries the text \<open>str(e)\<close> shows, a \<open>KeyError\<close> its key.
  \<open>RequestException\<close> stands for \<open>requests.RequestException\<close> and its subclasses
  (\<open>HTTPError\<close>, \<open>ConnectionError\<close>, ...), \<open>OSError\<close> for the I/O errors of \<open>open\<close>
  and \<open>read\<close>.
\<close>

datatype exn =
    RequestException string
  | KeyError string
  | IndexError string
  | ValueError string
  | FileNotFoundError string
  | OSError string
  | Exception string

fun str_exn :: "exn \<Rightarrow> string" where
  "str_exn (RequestException m) = m"
| "str_exn (KeyError k) = [CHR 0x27] @ k @ [CHR 0x27]"
| "str_exn (IndexError m) = m"
| "str_exn (ValueError m) = m"
| "str_exn (FileNotFoundError m) = m"
| "str_exn (OSError m) = m"
| "str_exn (Exception m) = m"

fun is_RequestException :: "exn \<Rightarrow> bool" where
  "is_RequestException (RequestException m) = True"
| "is_RequestException e = False"

text \<open>
  An HTTP response as the \<open>requests\<close> library hands it over: the status line, the
  final URL, the body as text and as bytes, and what \<open>response.json()\<close> gives (the
  parsed body, or the exception it raises).
\<close>

record 'j response =
  status_code :: int
  reason :: string
  url :: string
  resp_text :: string
  content :: string
  json :: "exn + 'j"

text \<open>\<open>Response.raise_for_status\<close> of the \<open>requests\<close> library.\<close>

definition raise_for_status :: "'j response \<Rightarrow> exn + unit" where
  "raise_for_status r =
     (if 400 \<le> status_code r \<and> status_code r < 500
      then Inl (RequestException
             (str_int (status_code r) @ '' Client Error: '' @ reason r @ '' for url: '' @ url r))
      else if 500 \<le> status_code r \<and> status_code r < 600
      then Inl (RequestException
             (str_int (status_code r) @ '' Server Error: '' @ reason r @ '' for url: '' @ url r))
      else Inr ())"

section \<open>gemini.py: the chat assistant with real-time search\<close>

definition REAL_TIME_KEYWORDS :: "string list" where
  "REAL_TIME_KEYWORDS = [''current'', ''price'', ''weather'', ''today'', ''now'', ''live'']"

definition is_real_time_query :: "string \<Rightarrow> bool" where
  "is_real_time_query user_input =
     list_ex (\<lambda>keyword. str_in keyword (lower user_input)) REAL_TIME_KEYWORDS"

text \<open>
  The two constants \<open>gemini.py\<close> imports from the module \<open>env\<close> that fetching uses.
\<close>

record env =
  GOOGLE_SEARCH_API_KEY :: string
  SEARCH_ENGINE_ID :: string

text \<open>
  A result item of the search provider is a JSON object with string fields; the parsed
  body is an object whose \<open>items\<close> member, when present, is a list of them.
  \<open>item[key]\<close> raises \<open>KeyError\<close> on a missing key.
\<close>

type_synonym item = "string \<rightharpoonup> string"

type_synonym search_data = "item list option"

definition getitem :: "item \<Rightarrow> string \<Rightarrow> exn + string" where
  "getitem d k = (case d k of None \<Rightarrow> Inl (KeyError k) | Some v \<Rightarrow> Inr v)"

definition search_url :: "env \<Rightarrow> string \<Rightarrow> string" where
  "search_url cfg query =
     ''https://www.googleapis.com/customsearch/v1?key='' @ GOOGLE_SEARCH_API_KEY cfg
       @ ''&cx='' @ SEARCH_ENGINE_ID cfg @ ''&q='' @ query @ ''&num=3''"

text \<open>The list comprehension of \<open>fetch_search_results\<close>: one line per item, in order,
  stopping at the first item that lacks a field.\<close>

definition format_item :: "item \<Rightarrow> exn + string" where
  "format_item it =
     (case getitem it ''title'' of
        Inl e \<Rightarrow> Inl e
      | Inr t \<Rightarrow>
          (case getitem it ''snippet'' of
             Inl e \<Rightarrow> Inl e
           | Inr s \<Rightarrow> Inr (''- '' @ t @ '': '' @ s)))"

fun format_items :: "item list \<Rightarrow> exn + string list" where
  "format_items [] = Inr []"
| "format_items (it # its) =
     (case format_item it of
        Inl e \<Rightarrow> Inl e
      | Inr l \<Rightarrow> (case format_items its of Inl e \<Rightarrow> Inl e | Inr ls \<Rightarrow> Inr (l # ls)))"

text \<open>The handler \<open>except requests.RequestException as e\<close>: a request exception is
  re-raised as a plain \<open>Exception\<close>, any other exception passes through.\<close>

definition fetch_except :: "exn \<Rightarrow> exn + string" where
  "fetch_except e =
     (if is_RequestException e
      then Inl (Exception (''Error fetching search results: '' @ str_exn e))
      else Inl e)"

text \<open>\<open>requests_get\<close> is the network: what \<open>requests.get(url)\<close> returns or raises.\<close>

definition fetch_search_results ::
  "env \<Rightarrow> (string \<Rightarrow> exn + search_data response) \<Rightarrow> string \<Rightarrow> exn + string" where
  "fetch_search_results cfg requests_get query =
     (case requests_get (search_url cfg query) of
        Inl e \<Rightarrow> fetch_except e
      | Inr r \<Rightarrow>
          (case raise_for_status r of
             Inl e \<Rightarrow> fetch_except e
           | Inr _ \<Rightarrow>
               (case json r of
                  Inl e \<Rightarrow> fetch_except e
                | Inr data \<Rightarrow>
                    (let results = (case data of None \<Rightarrow> [] | Some its \<Rightarrow> its)
                     in if results = [] then Inr ''No relevant search results found.''
                        else (case format_items (take 3 results) of
                                Inl e \<Rightarrow> fetch_except e
                              | Inr ls \<Rightarrow>
                                  Inr (''Real-time data from search:'' @ nl @ join nl ls))))))"

text \<open>
  The chat session is the provider's handle: \<open>sent\<close> logs every prompt handed to
  \<open>send_message\<close>, \<open>reply\<close> is the provider (the text of its answer, or the exception
  the call raises), which sees the earlier turns.
\<close>

record chat_session =
  sent :: "string list"
  reply :: "string list \<Rightarrow> string \<Rightarrow> exn + string"

definition send_message :: "chat_session \<Rightarrow> string \<Rightarrow> (exn + string) \<times> chat_session" where
  "send_message s prompt = (reply s (sent s) prompt, s\<lparr>sent := sent s @ [prompt]\<rparr>)"

definition generate_response ::
  "env \<Rightarrow> (string \<Rightarrow> exn + search_data response) \<Rightarrow> string \<Rightarrow> chat_session
     \<Rightarrow> (exn + string) \<times> chat_session" where
  "generate_response cfg requests_get user_input chat =
     (let prompt =
            (if is_real_time_query user_input
             then (case fetch_search_results cfg requests_get user_input of
                     Inr search_data \<Rightarrow> user_input @ nl @ nl @ search_data
                   | Inl e \<Rightarrow>
                       user_input @ nl @ nl
                         @ ''Note: Could not fetch real-time data due to error: '' @ str_exn e)
             else user_input)
      in (case send_message chat prompt of
            (Inr t, chat') \<Rightarrow> (Inr t, chat')
          | (Inl e, chat') \<Rightarrow>
              (Inl (Exception (''Error generating response with Gemini: '' @ str_exn e)), chat')))"

section \<open>img_gen.py: speech to image\<close>

definition MONSTER_API_BASE :: string where
  "MONSTER_API_BASE = ''https://api.monsterapi.ai/v1/generate''"

definition WHISPER_MODEL :: string where
  "WHISPER_MODEL = ''whisper-large-v3''"

definition SDXL_MODEL :: string where
  "SDXL_MODEL = ''sdxl''"

text \<open>The namespace \<open>argparse\<close> returns; \<open>api_key\<close> is \<open>None\<close> without the flag.\<close>

record args =
  audio :: string
  out :: string
  api_key :: "string option"
  dry_run :: bool

text \<open>
  What a path names: a directory, a regular file, or something else (a device, a
  pipe).  A file carries what opening it and reading it gives: its bytes, or the
  exception raised.
\<close>

datatype fnode = Directory | Regular "exn + string" | Special "exn + string"

text \<open>The JSON body of the image request, and the calls the script makes through
  \<open>requests\<close>.\<close>

record image_request =
  model :: string
  prompt :: string
  width :: int
  height :: int
  steps :: int
  seed :: "int option"

datatype request =
    PostFiles string string string string
  | PostJson string string string image_request
  | Get string

text \<open>
  The parsed body of a provider response is a JSON object, of which the script reads
  the members \<open>text\<close> (a string) and \<open>output\<close> (a list of strings or nulls); either
  may be absent.
\<close>

record result_json =
  json_text :: "string option"
  json_output :: "string option list option"

text \<open>
  The process's surroundings: the file system (no entry: the path does not exist), the
  refusals of \<open>open(path, "wb")\<close>, the environment variable, the two output streams
  line by line, and the log of the network calls made.
\<close>

record world =
  fs :: "string \<rightharpoonup> fnode"
  write_error :: "string \<rightharpoonup> exn"
  MONSTER_API_KEY :: "string option"
  stdout :: "string list"
  stderr :: "string list"
  requests_log :: "request list"

type_synonym network = "request \<Rightarrow> exn + result_json response"

definition print :: "string \<Rightarrow> world \<Rightarrow> world" where
  "print line w = w\<lparr>stdout := stdout w @ [line]\<rparr>"

definition print_stderr :: "string \<Rightarrow> world \<Rightarrow> world" where
  "print_stderr line w = w\<lparr>stderr := stderr w @ [line]\<rparr>"

definition path_exists :: "world \<Rightarrow> string \<Rightarrow> bool" where
  "path_exists w p = (fs w p \<noteq> None)"

definition path_isfile :: "world \<Rightarrow> string \<Rightarrow> bool" where
  "path_isfile w p = (case fs w p of Some (Regular _) \<Rightarrow> True | _ \<Rightarrow> False)"

definition quoted :: "string \<Rightarrow> string" where
  "quoted p = [CHR 0x27] @ p @ [CHR 0x27]"

text \<open>\<open>open(path, "rb")\<close> followed by reading.\<close>

definition open_rb :: "world \<Rightarrow> string \<Rightarrow> exn + string" where
  "open_rb w p =
     (case fs w p of
        None \<Rightarrow> Inl (FileNotFoundError (''[Errno 2] No such file or directory: '' @ quoted p))
      | Some Directory \<Rightarrow> Inl (OSError (''[Errno 21] Is a directory: '' @ quoted p))
      | Some (Regular r) \<Rightarrow> r
      | Some (Special r) \<Rightarrow> r)"

text \<open>\<open>open(path, "wb")\<close> followed by writing: the file is created or replaced.\<close>

definition open_wb :: "world \<Rightarrow> string \<Rightarrow> string \<Rightarrow> exn + world" where
  "open_wb w p bytes =
     (if fs w p = Some Directory
      then Inl (OSError (''[Errno 21] Is a directory: '' @ quoted p))
      else (case write_error w p of
              Some e \<Rightarrow> Inl e
            | None \<Rightarrow> Inr (w\<lparr>fs := (fs w)(p \<mapsto> Regular (Inr bytes))\<rparr>)))"

text \<open>A network call is logged, then answered by the network.\<close>

definition call :: "request \<Rightarrow> world \<Rightarrow> world" where
  "call req w = w\<lparr>requests_log := requests_log w @ [req]\<rparr>"

text \<open>Truth value of a string or \<open>None\<close>.\<close>

fun truthy :: "string option \<Rightarrow> bool" where
  "truthy None = False"
| "truthy (Some s) = (s \<noteq> [])"

definition get_api_key :: "args \<Rightarrow> world \<Rightarrow> exn + string" where
  "get_api_key a w =
     (let key = (if truthy (api_key a) then api_key a else MONSTER_API_KEY w)
      in if \<not> truthy key
         then Inl (ValueError
                ''MonsterAPI key not provided. Use --api_key or set MONSTER_API_KEY env var.'')
         else Inr (the key))"

definition mask_key :: "string \<Rightarrow> string" where
  "mask_key key =
     (if length key > 8
      then take 4 key @ replicate (length key - 8) CHR ''*'' @ drop (length key - 4) key
      else replicate (length key) CHR ''*'')"

definition validate_audio :: "string \<Rightarrow> world \<Rightarrow> (exn + unit) \<times> world" where
  "validate_audio input_path w =
     (if \<not> path_exists w input_path
      then (Inl (FileNotFoundError (''Audio file not found: '' @ input_path)), w)
      else if \<not> path_isfile w input_path
      then (Inl (ValueError (''Path is not a file: '' @ input_path)), w)
      else (case open_rb w input_path of
              Inl e \<Rightarrow> (Inl (Exception (''Audio file not readable: '' @ str_exn e)), w)
            | Inr f \<Rightarrow> (Inr (), print (''Audio file validated: '' @ input_path) w)))"

definition transcribe_audio ::
  "network \<Rightarrow> string \<Rightarrow> string \<Rightarrow> world \<Rightarrow> (exn + string) \<times> world" where
  "transcribe_audio net audio_path key w =
     (let w1 = print (''Transcribing audio with model '' @ WHISPER_MODEL @ ''...'') w
      in case open_rb w1 audio_path of
           Inl e \<Rightarrow> (Inl e, w1)
         | Inr f \<Rightarrow>
             (let req = PostFiles MONSTER_API_BASE (''Bearer '' @ key) f WHISPER_MODEL;
                  w2 = call req w1
              in case net req of
                   Inl e \<Rightarrow> (Inl e, w2)
                 | Inr response \<Rightarrow>
                     if status_code response \<noteq> 200
                     then (Inl (Exception (''Transcription failed: ''
                                  @ str_int (status_code response) @ '' - ''
                                  @ resp_text response)), w2)
                     else (case json response of
                             Inl e \<Rightarrow> (Inl e, w2)
                           | Inr result \<Rightarrow>
                               (let transcript =
                                      strip (case json_text result of None \<Rightarrow> [] | Some t \<Rightarrow> t)
                                in if transcript = []
                                   then (Inl (Exception ''No transcript generated.''), w2)
                                   else (Inr transcript,
                                         print (''Transcript: '' @ transcript) w2)))))"

definition generate_image ::
  "network \<Rightarrow> string \<Rightarrow> string \<Rightarrow> string \<Rightarrow> world \<Rightarrow> (exn + string) \<times> world" where
  "generate_image net prompt_text key output_path w =
     (let w1 = print (''Generating image with model '' @ SDXL_MODEL @ ''...'') w;
          req = PostJson MONSTER_API_BASE (''Bearer '' @ key) ''application/json''
                  \<lparr>model = SDXL_MODEL, prompt = prompt_text, width = 512, height = 512,
                   steps = 20, seed = None\<rparr>;
          w2 = call req w1
      in case net req of
           Inl e \<Rightarrow> (Inl e, w2)
         | Inr response \<Rightarrow>
             if status_code response \<noteq> 200
             then (Inl (Exception (''Image generation failed: ''
                          @ str_int (status_code response) @ '' - '' @ resp_text response)), w2)
             else (case json response of
                     Inl e \<Rightarrow> (Inl e, w2)
                   | Inr result \<Rightarrow>
                       (case (case json_output result of None \<Rightarrow> [None] | Some l \<Rightarrow> l) of
                          [] \<Rightarrow> (Inl (IndexError ''list index out of range''), w2)
                        | image_url # _ \<Rightarrow>
                            if \<not> truthy image_url
                            then (Inl (Exception ''No image URL in response.''), w2)
                            else (let w3 = call (Get (the image_url)) w2
                                  in case net (Get (the image_url)) of
                                       Inl e \<Rightarrow> (Inl e, w3)
                                     | Inr img_response \<Rightarrow>
                                         if status_code img_response \<noteq> 200
                                         then (Inl (Exception ''Failed to download image.''), w3)
                                         else (case open_wb w3 output_path
                                                      (content img_response) of
                                                 Inl e \<Rightarrow> (Inl e, w3)
                                               | Inr w4 \<Rightarrow>
                                                   (Inr output_path,
                                                    print (''Image saved to '' @ output_path)
                                                      w4))))))"

text \<open>The body of the \<open>try\<close> block of \<open>main\<close>.\<close>

definition main_try :: "network \<Rightarrow> args \<Rightarrow> world \<Rightarrow> (exn + unit) \<times> world" where
  "main_try net a w =
     (case get_api_key a w of
        Inl e \<Rightarrow> (Inl e, w)
      | Inr key \<Rightarrow>
          (let w1 = print (''Using API key: '' @ mask_key key) w
           in if dry_run a
              then (let w2 = print ''Dry-run mode: Validating audio file...'' w1
                    in case validate_audio (audio a) w2 of
                         (Inl e, w3) \<Rightarrow> (Inl e, w3)
                       | (Inr _, w3) \<Rightarrow> (Inr (), print ''Dry-run successful.'' w3))
              else (case validate_audio (audio a) w1 of
                      (Inl e, w2) \<Rightarrow> (Inl e, w2)
                    | (Inr _, w2) \<Rightarrow>
                        (case transcribe_audio net (audio a) key w2 of
                           (Inl e, w3) \<Rightarrow> (Inl e, w3)
                         | (Inr transcript, w3) \<Rightarrow>
                             (case generate_image net transcript key (out a) w3 of
                                (Inl e, w4) \<Rightarrow> (Inl e, w4)
                              | (Inr image_path, w4) \<Rightarrow>
                                  (Inr (),
                                   print (''Image saved: '' @ image_path)
                                     (print (''Transcript: '' @ transcript)
                                        (print (''Models used: Transcription='' @ WHISPER_MODEL
                                                  @ '', Image='' @ SDXL_MODEL) w4))))))))"

text \<open>\<open>main\<close> after argument parsing: the exit status of the process and the world it
  leaves.  An exception of the \<open>try\<close> block is printed to the error stream and the
  process exits with status 1.\<close>

definition main :: "network \<Rightarrow> args \<Rightarrow> world \<Rightarrow> int \<times> world" where
  "main net a w =
     (case main_try net a w of
        (Inr _, w') \<Rightarrow> (0, w')
      | (Inl e, w') \<Rightarrow> (1, print_stderr (''Error: '' @ str_exn e) w'))"

section \<open>Properties of the string helpers\<close>

lemma startswith_iff: "startswith s k \<longleftrightarrow> (\<exists>suf. s = k @ suf)"
  by (induction s k rule: startswith.induct) auto

lemma str_in_iff: "str_in k s \<longleftrightarrow> (\<exists>pre suf. s = pre @ k @ suf)"
proof (induction s)
  case Nil
  then show ?case by auto
next
  case (Cons c cs)
  show ?case
  proof
    assume "str_in k (c # cs)"
    then consider "startswith (c # cs) k" | "str_in k cs" by auto
    then show "\<exists>pre suf. c # cs = pre @ k @ suf"
    proof cases
      case 1
      then obtain suf where "c # cs = k @ suf" by (auto simp: startswith_iff)
      then have "c # cs = [] @ k @ suf" by simp
      then show ?thesis by blast
    next
      case 2
      then obtain pre suf where "cs = pre @ k @ suf" using Cons.IH by auto
      then have "c # cs = (c # pre) @ k @ suf" by simp
      then show ?thesis by blast
    qed
  next
    assume "\<exists>pre suf. c # cs = pre @ k @ suf"
    then obtain pre suf where eq: "c # cs = pre @ k @ suf" by blast
    show "str_in k (c # cs)"
    proof (cases pre)
      case Nil
      with eq have "startswith (c # cs) k" by (auto simp: startswith_iff)
      then show ?thesis by simp
    next
      case (Cons p ps)
      with eq have "cs = ps @ k @ suf" by simp
      then have "str_in k cs" using Cons.IH by blast
      then show ?thesis by simp
    qed
  qed
qed

section \<open>The keyword classifier\<close>

text \<open>
  C2: \<open>is_real_time_query\<close> is true exactly when the lower-cased message has one of
  the six keywords \<open>current\<close>, \<open>price\<close>, \<open>weather\<close>, \<open>today\<close>, \<open>now\<close>, \<open>live\<close> as a
  substring.  It is a total function of the message alone.
\<close>

theorem is_real_time_query_keywords:
  "is_real_time_query message \<longleftrightarrow>
     (\<exists>keyword pre suf.
        keyword \<in> {''current'', ''price'', ''weather'', ''today'', ''now'', ''live''}
        \<and> lower message = pre @ keyword @ suf)"
proof -
  have kws: "set REAL_TIME_KEYWORDS
               = {''current'', ''price'', ''weather'', ''today'', ''now'', ''live''}"
    by (simp only: REAL_TIME_KEYWORDS_def list.set)
  have "is_real_time_query message \<longleftrightarrow>
          (\<exists>keyword \<in> set REAL_TIME_KEYWORDS. \<exists>pre suf. lower message = pre @ keyword @ suf)"
    by (simp only: is_real_time_query_def list_ex_iff str_in_iff)
  also have "\<dots> \<longleftrightarrow>
          (\<exists>keyword pre suf. keyword \<in> set REAL_TIME_KEYWORDS
              \<and> lower message = pre @ keyword @ suf)"
    by (simp only: bex_simps Bex_def ex_simps)
  finally show ?thesis by (simp only: kws)
qed

theorem is_real_time_query_keywords_witness:
  "is_real_time_query ''What's the weather now?''
   \<and> (\<exists>keyword pre suf.
        keyword \<in> {''current'', ''price'', ''weather'', ''today'', ''now'', ''live''}
        \<and> lower ''What's the weather now?'' = pre @ keyword @ suf)
   \<and> \<not> is_real_time_query ''Tell me a joke''"
proof -
  have yes: "is_real_time_query ''What's the weather now?''" by code_simp
  have no: "\<not> is_real_time_query ''Tell me a joke''" by code_simp
  from is_real_time_query_keywords [of "''What's the weather now?''"] yes
  have ex: "\<exists>keyword pre suf.
        keyword \<in> {''current'', ''price'', ''weather'', ''today'', ''now'', ''live''}
        \<and> lower ''What's the weather now?'' = pre @ keyword @ suf"
    by (rule iffD1)
  from yes ex no show ?thesis by (intro conjI)
qed

section \<open>Masking the API key\<close>

text \<open>
  C9: \<open>mask_key\<close> keeps the length of the key.  A key of at most 8 characters becomes
  asterisks only; a longer key keeps its first 4 and its last 4 characters, and every
  position in between holds an asterisk.
\<close>

theorem mask_key_shape:
  "length (mask_key key) = length key
   \<and> (length key \<le> 8 \<longrightarrow> mask_key key = replicate (length key) CHR ''*'')
   \<and> (8 < length key \<longrightarrow>
        take 4 (mask_key key) = take 4 key
        \<and> drop (length key - 4) (mask_key key) = drop (length key - 4) key
        \<and> (\<forall>i. 4 \<le> i \<and> i < length key - 4 \<longrightarrow> mask_key key ! i = CHR ''*''))"
proof (intro conjI impI allI)
  show "length (mask_key key) = length key"
    by (simp add: mask_key_def)
next
  assume "length key \<le> 8"
  then show "mask_key key = replicate (length key) CHR ''*''"
    by (simp add: mask_key_def)
next
  assume "8 < length key"
  then show "take 4 (mask_key key) = take 4 key"
    by (simp add: mask_key_def)
next
  assume "8 < length key"
  then show "drop (length key - 4) (mask_key key) = drop (length key - 4) key"
    by (simp add: mask_key_def)
next
  fix i
  assume big: "8 < length key" and i: "4 \<le> i \<and> i < length key - 4"
  then have mid: "i - 4 < length key - 8" by arith
  from big i mid show "mask_key key ! i = CHR ''*''"
    by (simp add: mask_key_def nth_append)
qed

theorem mask_key_shape_witness:
  "mask_key ''abc'' = ''***'' \<and> mask_key ''sk-1234567890'' = ''sk-1*****7890''"
  using mask_key_shape [of "''abc''"] mask_key_shape [of "''sk-1234567890''"]
  by (simp add: mask_key_def)

section \<open>Composing the prompt\<close>

lemma sent_send_message: "sent (snd (send_message chat p)) = sent chat @ [p]"
  by (simp add: send_message_def)

lemma sent_after_send:
  "sent (snd (case send_message chat p of
                (Inr t, chat') \<Rightarrow> (Inr t, chat')
              | (Inl e, chat') \<Rightarrow> (Inl (Exception (pre @ str_exn e)), chat')))
     = sent chat @ [p]"
  by (simp add: send_message_def split: sum.split)

lemma fst_after_send:
  "fst (case send_message chat p of
          (Inr t, chat') \<Rightarrow> (Inr t, chat')
        | (Inl e, chat') \<Rightarrow> (Inl (Exception (pre @ str_exn e)), chat'))
     = (case reply chat (sent chat) p of
          Inr t \<Rightarrow> Inr t
        | Inl e \<Rightarrow> Inl (Exception (pre @ str_exn e)))"
  by (simp add: send_message_def split: sum.split)

lemma raise_for_status_ok:
  "\<not> (400 \<le> status_code r \<and> status_code r < 600) \<Longrightarrow> raise_for_status r = Inr ()"
  by (auto simp: raise_for_status_def)

lemma format_items_ok:
  "\<forall>it \<in> set its. it ''title'' \<noteq> None \<and> it ''snippet'' \<noteq> None \<Longrightarrow>
   format_items its
     = Inr (map (\<lambda>it. ''- '' @ the (it ''title'') @ '': '' @ the (it ''snippet'')) its)"
proof (induction its)
  case Nil
  show ?case by simp
next
  case (Cons it its)
  from Cons.prems obtain t s where t: "it ''title'' = Some t" and s: "it ''snippet'' = Some s"
    by auto
  have one: "format_item it = Inr (''- '' @ t @ '': '' @ s)"
    by (simp only: format_item_def getitem_def t s option.case sum.case)
  from Cons have rest: "format_items its
     = Inr (map (\<lambda>it. ''- '' @ the (it ''title'') @ '': '' @ the (it ''snippet'')) its)"
    by simp
  show ?case
    by (simp only: format_items.simps one rest sum.case list.map t s option.sel)
qed

text \<open>
  C1: when the message is classified as real-time and fetching the search results
  raises an error \<open>e\<close>, the prompt handed to the chat session is the message, a blank
  line, the prefix \<open>Note: Could not fetch real-time data due to error: \<close> and the text
  of \<open>e\<close>; the turn goes on, and its result is the provider's answer to that prompt.
\<close>

theorem generate_response_search_error:
  assumes rt: "is_real_time_query user_input"
    and err: "fetch_search_results cfg requests_get user_input = Inl e"
  shows "sent (snd (generate_response cfg requests_get user_input chat))
           = sent chat @ [user_input @ nl @ nl
                @ ''Note: Could not fetch real-time data due to error: '' @ str_exn e]
         \<and> fst (generate_response cfg requests_get user_input chat)
           = (case reply chat (sent chat)
                     (user_input @ nl @ nl
                        @ ''Note: Could not fetch real-time data due to error: '' @ str_exn e) of
                Inr t \<Rightarrow> Inr t
              | Inl e' \<Rightarrow>
                  Inl (Exception (''Error generating response with Gemini: '' @ str_exn e')))"
  by (simp only: generate_response_def rt err if_True sum.case Let_def
        sent_after_send fst_after_send simp_thms)

theorem generate_response_search_error_witness:
  "is_real_time_query ''weather''
   \<and> fetch_search_results \<lparr>GOOGLE_SEARCH_API_KEY = ''k'', SEARCH_ENGINE_ID = ''cx''\<rparr>
        (\<lambda>u. Inl (RequestException ''timed out'')) ''weather''
       = Inl (Exception ''Error fetching search results: timed out'')
   \<and> sent (snd (generate_response \<lparr>GOOGLE_SEARCH_API_KEY = ''k'', SEARCH_ENGINE_ID = ''cx''\<rparr>
        (\<lambda>u. Inl (RequestException ''timed out'')) ''weather''
        \<lparr>sent = [], reply = (\<lambda>h p. Inr ''ok'')\<rparr>))
       = [''weather'' @ nl @ nl
            @ ''Note: Could not fetch real-time data due to error: ''
            @ ''Error fetching search results: timed out'']
   \<and> fst (generate_response \<lparr>GOOGLE_SEARCH_API_KEY = ''k'', SEARCH_ENGINE_ID = ''cx''\<rparr>
        (\<lambda>u. Inl (RequestException ''timed out'')) ''weather''
        \<lparr>sent = [], reply = (\<lambda>h p. Inr ''ok'')\<rparr>)
       = Inr ''ok''"
proof -
  have rt: "is_real_time_query ''weather''" by code_simp
  have err: "fetch_search_results \<lparr>GOOGLE_SEARCH_API_KEY = ''k'', SEARCH_ENGINE_ID = ''cx''\<rparr>
        (\<lambda>u. Inl (RequestException ''timed out'')) ''weather''
       = Inl (Exception ''Error fetching search results: timed out'')"
    by (simp add: fetch_search_results_def fetch_except_def)
  from generate_response_search_error [OF rt err,
         of "\<lparr>sent = [], reply = (\<lambda>h p. Inr ''ok'')\<rparr>"] rt err
  show ?thesis by simp
qed

text \<open>
  C3 (as amended): when the message is classified as real-time and the search succeeds
  with \<open>N \<ge> 1\<close> items, of which the first \<open>min N 3\<close> each carry a \<open>title\<close> and a
  \<open>snippet\<close>, the prompt handed to the chat session is the message, a blank line, the
  header \<open>Real-time data from search:\<close> and a newline, then those first \<open>min N 3\<close>
  items in the provider's order, each as \<open>- title: snippet\<close>, joined by newlines.
  An item among them that lacks one of the two fields makes \<open>item[...]\<close> raise
  \<open>KeyError\<close>, which \<open>generate_response\<close> turns into the error note.
\<close>

theorem generate_response_search_items:
  assumes rt: "is_real_time_query user_input"
    and resp: "requests_get (search_url cfg user_input) = Inr r"
    and ok: "\<not> (400 \<le> status_code r \<and> status_code r < 600)"
    and js: "json r = Inr (Some items)"
    and ne: "items \<noteq> []"
    and fields: "\<forall>it \<in> set (take 3 items). it ''title'' \<noteq> None \<and> it ''snippet'' \<noteq> None"
  shows "sent (snd (generate_response cfg requests_get user_input chat))
           = sent chat @ [user_input @ nl @ nl @ ''Real-time data from search:'' @ nl
                @ join nl (map (\<lambda>it. ''- '' @ the (it ''title'') @ '': '' @ the (it ''snippet''))
                             (take (min (length items) 3) items))]"
proof -
  have tk: "take (min (length items) 3) items = take 3 items"
    by (simp add: min_def)
  have fetch: "fetch_search_results cfg requests_get user_input
        = Inr (''Real-time data from search:'' @ nl
                @ join nl (map (\<lambda>it. ''- '' @ the (it ''title'') @ '': '' @ the (it ''snippet''))
                             (take 3 items)))"
    using ne
    by (simp add: fetch_search_results_def resp raise_for_status_ok [OF ok] js
          format_items_ok [OF fields])
  show ?thesis
    by (simp only: generate_response_def rt fetch if_True sum.case Let_def
          sent_after_send tk)
qed

theorem generate_response_search_items_witness:
  "sent (snd (generate_response \<lparr>GOOGLE_SEARCH_API_KEY = ''k'', SEARCH_ENGINE_ID = ''cx''\<rparr>
        (\<lambda>u. Inr \<lparr>status_code = 200, reason = ''OK'', url = u, resp_text = [],
                   content = [],
                   json = Inr (Some [[''title'' \<mapsto> ''A'', ''snippet'' \<mapsto> ''a''],
                                     [''title'' \<mapsto> ''B'', ''snippet'' \<mapsto> ''b''],
                                     [''title'' \<mapsto> ''C'', ''snippet'' \<mapsto> ''c''],
                                     [''title'' \<mapsto> ''D'']])\<rparr>)
        ''live''
        \<lparr>sent = [''hello''], reply = (\<lambda>h p. Inr ''ok'')\<rparr>))
     = [''hello'',
        ''live'' @ nl @ nl @ ''Real-time data from search:'' @ nl
          @ ''- A: a'' @ nl @ ''- B: b'' @ nl @ ''- C: c'']"
proof -
  have rt: "is_real_time_query ''live''" by code_simp
  have fields: "\<forall>it \<in> set (take 3 [[''title'' \<mapsto> ''A'', ''snippet'' \<mapsto> ''a''],
                                     [''title'' \<mapsto> ''B'', ''snippet'' \<mapsto> ''b''],
                                     [''title'' \<mapsto> ''C'', ''snippet'' \<mapsto> ''c''],
                                     [''title'' \<mapsto> ''D'']]).
                  it ''title'' \<noteq> None \<and> it ''snippet'' \<noteq> None"
    by simp
  from generate_response_search_items
         [where user_input = "''live''"
            and requests_get = "\<lambda>u. Inr \<lparr>status_code = 200, reason = ''OK'', url = u,
                   resp_text = [], content = [],
                   json = Inr (Some [[''title'' \<mapsto> ''A'', ''snippet'' \<mapsto> ''a''],
                                     [''title'' \<mapsto> ''B'', ''snippet'' \<mapsto> ''b''],
                                     [''title'' \<mapsto> ''C'', ''snippet'' \<mapsto> ''c''],
                                     [''title'' \<mapsto> ''D'']])\<rparr>"
            and cfg = "\<lparr>GOOGLE_SEARCH_API_KEY = ''k'', SEARCH_ENGINE_ID = ''cx''\<rparr>"
            and chat = "\<lparr>sent = [''hello''], reply = (\<lambda>h p. Inr ''ok'')\<rparr>",
          OF rt refl _ _ _ fields]
  show ?thesis by simp
qed

theorem generate_response_item_without_snippet_counterexample:
  "is_real_time_query ''live''
   \<and> fetch_search_results \<lparr>GOOGLE_SEARCH_API_KEY = ''k'', SEARCH_ENGINE_ID = ''cx''\<rparr>
        (\<lambda>u. Inr \<lparr>status_code = 200, reason = ''OK'', url = u, resp_text = [],
                   content = [], json = Inr (Some [[''title'' \<mapsto> ''A'']])\<rparr>)
        ''live''
       = Inl (KeyError ''snippet'')
   \<and> sent (snd (generate_response \<lparr>GOOGLE_SEARCH_API_KEY = ''k'', SEARCH_ENGINE_ID = ''cx''\<rparr>
        (\<lambda>u. Inr \<lparr>status_code = 200, reason = ''OK'', url = u, resp_text = [],
                   content = [], json = Inr (Some [[''title'' \<mapsto> ''A'']])\<rparr>)
        ''live''
        \<lparr>sent = [], reply = (\<lambda>h p. Inr ''ok'')\<rparr>))
       = [''live'' @ nl @ nl @ ''Note: Could not fetch real-time data due to error: ''
            @ [CHR 0x27] @ ''snippet'' @ [CHR 0x27]]
   \<and> \<not> startswith
         (hd (sent (snd (generate_response
            \<lparr>GOOGLE_SEARCH_API_KEY = ''k'', SEARCH_ENGINE_ID = ''cx''\<rparr>
            (\<lambda>u. Inr \<lparr>status_code = 200, reason = ''OK'', url = u, resp_text = [],
                       content = [], json = Inr (Some [[''title'' \<mapsto> ''A'']])\<rparr>)
            ''live''
            \<lparr>sent = [], reply = (\<lambda>h p. Inr ''ok'')\<rparr>))))
         (''live'' @ nl @ nl @ ''Real-time data from search:'')"
proof -
  have rt: "is_real_time_query ''live''" by code_simp
  have fetch: "fetch_search_results \<lparr>GOOGLE_SEARCH_API_KEY = ''k'', SEARCH_ENGINE_ID = ''cx''\<rparr>
        (\<lambda>u. Inr \<lparr>status_code = 200, reason = ''OK'', url = u, resp_text = [],
                   content = [], json = Inr (Some [[''title'' \<mapsto> ''A'']])\<rparr>)
        ''live''
       = Inl (KeyError ''snippet'')"
    by (simp add: fetch_search_results_def raise_for_status_def format_item_def getitem_def
          fetch_except_def)
  have prompt: "sent (snd (generate_response
        \<lparr>GOOGLE_SEARCH_API_KEY = ''k'', SEARCH_ENGINE_ID = ''cx''\<rparr>
        (\<lambda>u. Inr \<lparr>status_code = 200, reason = ''OK'', url = u, resp_text = [],
                   content = [], json = Inr (Some [[''title'' \<mapsto> ''A'']])\<rparr>)
        ''live''
        \<lparr>sent = [], reply = (\<lambda>h p. Inr ''ok'')\<rparr>))
       = [''live'' @ nl @ nl @ ''Note: Could not fetch real-time data due to error: ''
            @ [CHR 0x27] @ ''snippet'' @ [CHR 0x27]]"
    by (simp add: generate_response_def rt fetch send_message_def)
  have differs: "\<not> startswith
         (''live'' @ nl @ nl @ ''Note: Could not fetch real-time data due to error: ''
            @ [CHR 0x27] @ ''snippet'' @ [CHR 0x27])
         (''live'' @ nl @ nl @ ''Real-time data from search:'')"
    by (simp add: nl_def)
  from rt fetch prompt differs show ?thesis by simp
qed

text \<open>
  C4: when the message is classified as real-time and the search succeeds with no
  item (the \<open>items\<close> member absent or empty), the prompt handed to the chat session is
  the message, a blank line and the sentence \<open>No relevant search results found.\<close>
\<close>

theorem generate_response_no_results:
  assumes rt: "is_real_time_query user_input"
    and resp: "requests_get (search_url cfg user_input) = Inr r"
    and ok: "\<not> (400 \<le> status_code r \<and> status_code r < 600)"
    and js: "json r = Inr data"
    and empty: "data = None \<or> data = Some []"
  shows "sent (snd (generate_response cfg requests_get user_input chat))
           = sent chat @ [user_input @ nl @ nl @ ''No relevant search results found.'']"
proof -
  have fetch: "fetch_search_results cfg requests_get user_input
        = Inr ''No relevant search results found.''"
    using empty
    by (auto simp add: fetch_search_results_def resp raise_for_status_ok [OF ok] js)
  show ?thesis
    by (simp only: generate_response_def rt fetch if_True sum.case Let_def sent_after_send)
qed

theorem generate_response_no_results_witness:
  "sent (snd (generate_response \<lparr>GOOGLE_SEARCH_API_KEY = ''k'', SEARCH_ENGINE_ID = ''cx''\<rparr>
        (\<lambda>u. Inr \<lparr>status_code = 200, reason = ''OK'', url = u, resp_text = [],
                   content = [], json = Inr (Some [])\<rparr>)
        ''price of gold''
        \<lparr>sent = [], reply = (\<lambda>h p. Inr ''ok'')\<rparr>))
     = [''price of gold'' @ nl @ nl @ ''No relevant search results found.'']"
proof -
  have rt: "is_real_time_query ''price of gold''" by code_simp
  from generate_response_no_results
         [where user_input = "''price of gold''"
            and requests_get = "\<lambda>u. Inr \<lparr>status_code = 200, reason = ''OK'', url = u,
                   resp_text = [], content = [], json = Inr (Some [])\<rparr>"
            and cfg = "\<lparr>GOOGLE_SEARCH_API_KEY = ''k'', SEARCH_ENGINE_ID = ''cx''\<rparr>"
            and data = "Some []"
            and chat = "\<lparr>sent = [], reply = (\<lambda>h p. Inr ''ok'')\<rparr>",
          OF rt refl]
  show ?thesis by simp
qed

section \<open>Validating the audio file\<close>

text \<open>
  C7 (as amended): \<open>validate_audio\<close> raises \<open>FileNotFoundError\<close> for a path that does
  not exist, \<open>ValueError\<close> (not a file) for an existing path that is not a regular file,
  and an \<open>Exception\<close> (not readable) carrying the text of the I/O error when opening or
  reading the file raises one, each time leaving the world as it was.  For a readable
  regular file of any content it succeeds; its one effect is the line
  \<open>Audio file validated: <path>\<close> on standard output: the file system and the log of
  network calls stay as they were.
\<close>

theorem validate_audio_outcomes:
  "(fs w p = None \<longrightarrow>
      validate_audio p w = (Inl (FileNotFoundError (''Audio file not found: '' @ p)), w))
   \<and> (fs w p = Some Directory \<or> (\<exists>r. fs w p = Some (Special r)) \<longrightarrow>
      validate_audio p w = (Inl (ValueError (''Path is not a file: '' @ p)), w))
   \<and> (\<forall>e. fs w p = Some (Regular (Inl e)) \<longrightarrow>
      validate_audio p w = (Inl (Exception (''Audio file not readable: '' @ str_exn e)), w))
   \<and> (\<forall>bytes. fs w p = Some (Regular (Inr bytes)) \<longrightarrow>
      validate_audio p w = (Inr (), w\<lparr>stdout := stdout w @ [''Audio file validated: '' @ p]\<rparr>)
      \<and> fs (snd (validate_audio p w)) = fs w
      \<and> requests_log (snd (validate_audio p w)) = requests_log w
      \<and> stderr (snd (validate_audio p w)) = stderr w)"
proof (intro conjI impI allI)
  assume "fs w p = None"
  then show "validate_audio p w = (Inl (FileNotFoundError (''Audio file not found: '' @ p)), w)"
    by (simp add: validate_audio_def path_exists_def)
next
  assume "fs w p = Some Directory \<or> (\<exists>r. fs w p = Some (Special r))"
  then show "validate_audio p w = (Inl (ValueError (''Path is not a file: '' @ p)), w)"
    by (auto simp add: validate_audio_def path_exists_def path_isfile_def)
next
  fix e
  assume "fs w p = Some (Regular (Inl e))"
  then show "validate_audio p w
               = (Inl (Exception (''Audio file not readable: '' @ str_exn e)), w)"
    by (simp add: validate_audio_def path_exists_def path_isfile_def open_rb_def)
next
  fix bytes
  assume reg: "fs w p = Some (Regular (Inr bytes))"
  then show ok: "validate_audio p w
               = (Inr (), w\<lparr>stdout := stdout w @ [''Audio file validated: '' @ p]\<rparr>)"
    by (simp add: validate_audio_def path_exists_def path_isfile_def open_rb_def print_def)
  show "fs (snd (validate_audio p w)) = fs w" by (simp add: ok)
  show "requests_log (snd (validate_audio p w)) = requests_log w" by (simp add: ok)
  show "stderr (snd (validate_audio p w)) = stderr w" by (simp add: ok)
qed

theorem validate_audio_outcomes_witness:
  "validate_audio ''gone.wav''
      \<lparr>fs = [''a.wav'' \<mapsto> Regular (Inr ''RIFF''), ''dir'' \<mapsto> Directory,
              ''locked.wav'' \<mapsto> Regular (Inl (OSError ''[Errno 13] Permission denied''))],
       write_error = Map.empty, MONSTER_API_KEY = None,
       stdout = [], stderr = [], requests_log = []\<rparr>
     = (Inl (FileNotFoundError ''Audio file not found: gone.wav''),
        \<lparr>fs = [''a.wav'' \<mapsto> Regular (Inr ''RIFF''), ''dir'' \<mapsto> Directory,
              ''locked.wav'' \<mapsto> Regular (Inl (OSError ''[Errno 13] Permission denied''))],
         write_error = Map.empty, MONSTER_API_KEY = None,
         stdout = [], stderr = [], requests_log = []\<rparr>)
   \<and> fst (validate_audio ''dir''
      \<lparr>fs = [''a.wav'' \<mapsto> Regular (Inr ''RIFF''), ''dir'' \<mapsto> Directory,
              ''locked.wav'' \<mapsto> Regular (Inl (OSError ''[Errno 13] Permission denied''))],
       write_error = Map.empty, MONSTER_API_KEY = None,
       stdout = [], stderr = [], requests_log = []\<rparr>)
     = Inl (ValueError ''Path is not a file: dir'')
   \<and> fst (validate_audio ''locked.wav''
      \<lparr>fs = [''a.wav'' \<mapsto> Regular (Inr ''RIFF''), ''dir'' \<mapsto> Directory,
              ''locked.wav'' \<mapsto> Regular (Inl (OSError ''[Errno 13] Permission denied''))],
       write_error = Map.empty, MONSTER_API_KEY = None,
       stdout = [], stderr = [], requests_log = []\<rparr>)
     = Inl (Exception ''Audio file not readable: [Errno 13] Permission denied'')
   \<and> validate_audio ''a.wav''
      \<lparr>fs = [''a.wav'' \<mapsto> Regular (Inr ''RIFF''), ''dir'' \<mapsto> Directory,
              ''locked.wav'' \<mapsto> Regular (Inl (OSError ''[Errno 13] Permission denied''))],
       write_error = Map.empty, MONSTER_API_KEY = None,
       stdout = [], stderr = [], requests_log = []\<rparr>
     = (Inr (),
        \<lparr>fs = [''a.wav'' \<mapsto> Regular (Inr ''RIFF''), ''dir'' \<mapsto> Directory,
              ''locked.wav'' \<mapsto> Regular (Inl (OSError ''[Errno 13] Permission denied''))],
         write_error = Map.empty, MONSTER_API_KEY = None,
         stdout = [''Audio file validated: a.wav''], stderr = [], requests_log = []\<rparr>)"
proof -
  let ?w = "\<lparr>fs = [''a.wav'' \<mapsto> Regular (Inr ''RIFF''), ''dir'' \<mapsto> Directory,
              ''locked.wav'' \<mapsto> Regular (Inl (OSError ''[Errno 13] Permission denied''))],
       write_error = Map.empty, MONSTER_API_KEY = None,
       stdout = [], stderr = [], requests_log = []\<rparr>"
  from validate_audio_outcomes [of ?w "''gone.wav''"]
       validate_audio_outcomes [of ?w "''dir''"]
       validate_audio_outcomes [of ?w "''locked.wav''"]
       validate_audio_outcomes [of ?w "''a.wav''"]
  show ?thesis by simp
qed

theorem validate_audio_prints_counterexample:
  "fs \<lparr>fs = [''a.wav'' \<mapsto> Regular (Inr ''RIFF'')], write_error = Map.empty,
        MONSTER_API_KEY = None, stdout = [], stderr = [], requests_log = []\<rparr> ''a.wav''
     = Some (Regular (Inr ''RIFF''))
   \<and> fst (validate_audio ''a.wav''
        \<lparr>fs = [''a.wav'' \<mapsto> Regular (Inr ''RIFF'')], write_error = Map.empty,
         MONSTER_API_KEY = None, stdout = [], stderr = [], requests_log = []\<rparr>) = Inr ()
   \<and> stdout (snd (validate_audio ''a.wav''
        \<lparr>fs = [''a.wav'' \<mapsto> Regular (Inr ''RIFF'')], write_error = Map.empty,
         MONSTER_API_KEY = None, stdout = [], stderr = [], requests_log = []\<rparr>))
       = [''Audio file validated: a.wav'']
   \<and> snd (validate_audio ''a.wav''
        \<lparr>fs = [''a.wav'' \<mapsto> Regular (Inr ''RIFF'')], write_error = Map.empty,
         MONSTER_API_KEY = None, stdout = [], stderr = [], requests_log = []\<rparr>)
       \<noteq> \<lparr>fs = [''a.wav'' \<mapsto> Regular (Inr ''RIFF'')], write_error = Map.empty,
         MONSTER_API_KEY = None, stdout = [], stderr = [], requests_log = []\<rparr>"
  by (simp add: validate_audio_def path_exists_def path_isfile_def open_rb_def print_def)

section \<open>The command-line run\<close>

lemma get_api_key_found:
  "truthy (api_key a) \<or> truthy (MONSTER_API_KEY w) \<Longrightarrow> \<exists>key. get_api_key a w = Inr key"
  by (cases "truthy (api_key a)") (simp_all add: get_api_key_def)

lemma get_api_key_missing:
  "\<not> (truthy (api_key a) \<or> truthy (MONSTER_API_KEY w)) \<Longrightarrow>
   get_api_key a w
     = Inl (ValueError
         ''MonsterAPI key not provided. Use --api_key or set MONSTER_API_KEY env var.'')"
  by (simp add: get_api_key_def)

text \<open>
  C8: when the \<open>--audio\<close> path does not exist, the process exits with status 1 and
  writes one line starting with \<open>Error: \<close> to the error stream; the file system is left
  as it was, so the output image is not created, and no network call is made.
\<close>

theorem main_missing_audio:
  assumes missing: "fs w (audio a) = None"
  shows "fst (main net a w) = 1
         \<and> stderr (snd (main net a w))
             = stderr w @ [''Error: '' @
                 (if truthy (api_key a) \<or> truthy (MONSTER_API_KEY w)
                  then ''Audio file not found: '' @ audio a
                  else ''MonsterAPI key not provided. Use --api_key or set MONSTER_API_KEY env var.'')]
         \<and> fs (snd (main net a w)) = fs w
         \<and> requests_log (snd (main net a w)) = requests_log w"
proof (cases "truthy (api_key a) \<or> truthy (MONSTER_API_KEY w)")
  case True
  then obtain key where key: "get_api_key a w = Inr key"
    using get_api_key_found by blast
  have va: "\<And>w'. fs w' = fs w \<Longrightarrow>
              validate_audio (audio a) w'
                = (Inl (FileNotFoundError (''Audio file not found: '' @ audio a)), w')"
    using missing by (simp add: validate_audio_def path_exists_def)
  have body: "main_try net a w
                = (Inl (FileNotFoundError (''Audio file not found: '' @ audio a)),
                   if dry_run a
                   then print ''Dry-run mode: Validating audio file...''
                          (print (''Using API key: '' @ mask_key key) w)
                   else print (''Using API key: '' @ mask_key key) w)"
    by (simp add: main_try_def key Let_def va print_def)
  show ?thesis
    using True by (simp add: main_def body print_def print_stderr_def)
next
  case False
  then have key: "get_api_key a w
      = Inl (ValueError
          ''MonsterAPI key not provided. Use --api_key or set MONSTER_API_KEY env var.'')"
    by (rule get_api_key_missing)
  show ?thesis
    using False by (simp add: main_def main_try_def key print_stderr_def)
qed

theorem main_missing_audio_witness:
  "main (\<lambda>req. Inl (RequestException ''unreachable''))
      \<lparr>audio = ''gone.wav'', out = ''output.png'', api_key = Some ''sk-1234567890'',
       dry_run = False\<rparr>
      \<lparr>fs = Map.empty, write_error = Map.empty, MONSTER_API_KEY = None,
       stdout = [], stderr = [], requests_log = []\<rparr>
     = (1, \<lparr>fs = Map.empty, write_error = Map.empty, MONSTER_API_KEY = None,
            stdout = [''Using API key: sk-1*****7890''],
            stderr = [''Error: Audio file not found: gone.wav''], requests_log = []\<rparr>)"
proof -
  have run: "snd (main (\<lambda>req. Inl (RequestException ''unreachable''))
      \<lparr>audio = ''gone.wav'', out = ''output.png'', api_key = Some ''sk-1234567890'',
       dry_run = False\<rparr>
      \<lparr>fs = Map.empty, write_error = Map.empty, MONSTER_API_KEY = None,
       stdout = [], stderr = [], requests_log = []\<rparr>)
     = \<lparr>fs = Map.empty, write_error = Map.empty, MONSTER_API_KEY = None,
            stdout = [''Using API key: sk-1*****7890''],
            stderr = [''Error: Audio file not found: gone.wav''], requests_log = []\<rparr>"
    by (simp add: main_def main_try_def get_api_key_def validate_audio_def path_exists_def
          mask_key_def print_def print_stderr_def)
  from main_missing_audio
         [of "\<lparr>fs = Map.empty, write_error = Map.empty, MONSTER_API_KEY = None,
               stdout = [], stderr = [], requests_log = []\<rparr>"
             "\<lparr>audio = ''gone.wav'', out = ''output.png'', api_key = Some ''sk-1234567890'',
               dry_run = False\<rparr>"
             "\<lambda>req. Inl (RequestException ''unreachable'')"]
  have "fst (main (\<lambda>req. Inl (RequestException ''unreachable''))
      \<lparr>audio = ''gone.wav'', out = ''output.png'', api_key = Some ''sk-1234567890'',
       dry_run = False\<rparr>
      \<lparr>fs = Map.empty, write_error = Map.empty, MONSTER_API_KEY = None,
       stdout = [], stderr = [], requests_log = []\<rparr>) = 1"
    by simp
  with run show ?thesis by (simp add: prod_eq_iff)
qed

text \<open>
  C5 (as amended): with \<open>--dry_run\<close>, an \<open>--audio\<close> path naming a readable regular
  file, and an API key given by \<open>--api_key\<close> or by the environment variable
  \<open>MONSTER_API_KEY\<close>, the process makes no network call, leaves the file system as it
  was, and exits with status 0.
\<close>

theorem main_dry_run:
  assumes dr: "dry_run a"
    and regular: "fs w (audio a) = Some (Regular (Inr bytes))"
    and key: "truthy (api_key a) \<or> truthy (MONSTER_API_KEY w)"
  shows "fst (main net a w) = 0
         \<and> requests_log (snd (main net a w)) = requests_log w
         \<and> fs (snd (main net a w)) = fs w
         \<and> stderr (snd (main net a w)) = stderr w"
proof -
  from key obtain k where k: "get_api_key a w = Inr k"
    using get_api_key_found by blast
  have va: "\<And>w'. fs w' = fs w \<Longrightarrow>
              validate_audio (audio a) w'
                = (Inr (), print (''Audio file validated: '' @ audio a) w')"
    using regular
    by (simp add: validate_audio_def path_exists_def path_isfile_def open_rb_def)
  have body: "main_try net a w
                = (Inr (),
                   print ''Dry-run successful.''
                     (print (''Audio file validated: '' @ audio a)
                        (print ''Dry-run mode: Validating audio file...''
                           (print (''Using API key: '' @ mask_key k) w))))"
    by (simp add: main_try_def k dr Let_def va print_def)
  show ?thesis
    by (simp add: main_def body print_def)
qed

theorem main_dry_run_witness:
  "main (\<lambda>req. Inl (RequestException ''unreachable''))
      \<lparr>audio = ''a.wav'', out = ''output.png'', api_key = None, dry_run = True\<rparr>
      \<lparr>fs = [''a.wav'' \<mapsto> Regular (Inr ''RIFF'')], write_error = Map.empty,
       MONSTER_API_KEY = Some ''sk-1234567890'',
       stdout = [], stderr = [], requests_log = []\<rparr>
     = (0, \<lparr>fs = [''a.wav'' \<mapsto> Regular (Inr ''RIFF'')], write_error = Map.empty,
            MONSTER_API_KEY = Some ''sk-1234567890'',
            stdout = [''Using API key: sk-1*****7890'',
                      ''Dry-run mode: Validating audio file...'',
                      ''Audio file validated: a.wav'',
                      ''Dry-run successful.''],
            stderr = [], requests_log = []\<rparr>)"
proof -
  have run: "snd (main (\<lambda>req. Inl (RequestException ''unreachable''))
      \<lparr>audio = ''a.wav'', out = ''output.png'', api_key = None, dry_run = True\<rparr>
      \<lparr>fs = [''a.wav'' \<mapsto> Regular (Inr ''RIFF'')], write_error = Map.empty,
       MONSTER_API_KEY = Some ''sk-1234567890'',
       stdout = [], stderr = [], requests_log = []\<rparr>)
     = \<lparr>fs = [''a.wav'' \<mapsto> Regular (Inr ''RIFF'')], write_error = Map.empty,
            MONSTER_API_KEY = Some ''sk-1234567890'',
            stdout = [''Using API key: sk-1*****7890'',
                      ''Dry-run mode: Validating audio file...'',
                      ''Audio file validated: a.wav'',
                      ''Dry-run successful.''],
            stderr = [], requests_log = []\<rparr>"
    by (simp add: main_def main_try_def get_api_key_def validate_audio_def path_exists_def
          path_isfile_def open_rb_def mask_key_def print_def print_stderr_def)
  from main_dry_run
         [of "\<lparr>audio = ''a.wav'', out = ''output.png'', api_key = None, dry_run = True\<rparr>"
             "\<lparr>fs = [''a.wav'' \<mapsto> Regular (Inr ''RIFF'')], write_error = Map.empty,
               MONSTER_API_KEY = Some ''sk-1234567890'',
               stdout = [], stderr = [], requests_log = []\<rparr>"
             "''RIFF''"
             "\<lambda>req. Inl (RequestException ''unreachable'')"]
  have "fst (main (\<lambda>req. Inl (RequestException ''unreachable''))
      \<lparr>audio = ''a.wav'', out = ''output.png'', api_key = None, dry_run = True\<rparr>
      \<lparr>fs = [''a.wav'' \<mapsto> Regular (Inr ''RIFF'')], write_error = Map.empty,
       MONSTER_API_KEY = Some ''sk-1234567890'',
       stdout = [], stderr = [], requests_log = []\<rparr>) = 0"
    by simp
  with run show ?thesis by (simp add: prod_eq_iff)
qed

theorem main_dry_run_no_key_counterexample:
  "dry_run \<lparr>audio = ''a.wav'', out = ''output.png'', api_key = None, dry_run = True\<rparr>
   \<and> fs \<lparr>fs = [''a.wav'' \<mapsto> Regular (Inr ''RIFF'')], write_error = Map.empty,
          MONSTER_API_KEY = None, stdout = [], stderr = [], requests_log = []\<rparr>
        (audio \<lparr>audio = ''a.wav'', out = ''output.png'', api_key = None, dry_run = True\<rparr>)
       = Some (Regular (Inr ''RIFF''))
   \<and> main (\<lambda>req. Inl (RequestException ''unreachable''))
        \<lparr>audio = ''a.wav'', out = ''output.png'', api_key = None, dry_run = True\<rparr>
        \<lparr>fs = [''a.wav'' \<mapsto> Regular (Inr ''RIFF'')], write_error = Map.empty,
         MONSTER_API_KEY = None, stdout = [], stderr = [], requests_log = []\<rparr>
       = (1, \<lparr>fs = [''a.wav'' \<mapsto> Regular (Inr ''RIFF'')], write_error = Map.empty,
              MONSTER_API_KEY = None, stdout = [],
              stderr = [''Error: MonsterAPI key not provided. Use --api_key or set MONSTER_API_KEY env var.''],
              requests_log = []\<rparr>)"
  by (simp add: main_def main_try_def get_api_key_def print_stderr_def)

section \<open>Generating the image\<close>

lemma generate_image_failed_status:
  assumes "net (PostJson MONSTER_API_BASE (''Bearer '' @ key) ''application/json''
                  \<lparr>model = SDXL_MODEL, prompt = p, width = 512, height = 512,
                   steps = 20, seed = None\<rparr>) = Inr r"
    and "status_code r \<noteq> 200"
  shows "fst (generate_image net p key output_path w)
           = Inl (Exception (''Image generation failed: '' @ str_int (status_code r)
                               @ '' - '' @ resp_text r))"
  using assms by (simp add: generate_image_def Let_def)

lemma generate_image_missing_url:
  assumes "net (PostJson MONSTER_API_BASE (''Bearer '' @ key) ''application/json''
                  \<lparr>model = SDXL_MODEL, prompt = p, width = 512, height = 512,
                   steps = 20, seed = None\<rparr>) = Inr r"
    and "status_code r = 200"
    and "json r = Inr result"
    and "json_output result = None
         \<or> (\<exists>u rest. json_output result = Some (u # rest) \<and> \<not> truthy u)"
  shows "fst (generate_image net p key output_path w)
           = Inl (Exception ''No image URL in response.'')"
  using assms by (auto simp add: generate_image_def Let_def)

lemma generate_image_download_failed:
  assumes "net (PostJson MONSTER_API_BASE (''Bearer '' @ key) ''application/json''
                  \<lparr>model = SDXL_MODEL, prompt = p, width = 512, height = 512,
                   steps = 20, seed = None\<rparr>) = Inr r"
    and "status_code r = 200"
    and "json r = Inr result"
    and "json_output result = Some (Some u # rest)"
    and "u \<noteq> []"
    and "net (Get u) = Inr img"
    and "status_code img \<noteq> 200"
  shows "fst (generate_image net p key output_path w)
           = Inl (Exception ''Failed to download image.'')"
  using assms by (simp add: generate_image_def Let_def)

text \<open>
  C6: a success response of the image provider whose \<open>output\<close> list is empty.  Taking
  element 0 of the empty list raises \<open>IndexError\<close> before the test for a missing URL
  is reached, so the call does not end in the error \<open>No image URL in response.\<close>
\<close>

theorem generate_image_empty_output:
  "fst (generate_image
          (\<lambda>req. Inr \<lparr>status_code = 200, reason = ''OK'', url = MONSTER_API_BASE,
                       resp_text = [], content = [],
                       json = Inr \<lparr>json_text = None, json_output = Some []\<rparr>\<rparr>)
          ''a red kite'' ''sk-1234567890'' ''output.png''
          \<lparr>fs = Map.empty, write_error = Map.empty, MONSTER_API_KEY = None,
           stdout = [], stderr = [], requests_log = []\<rparr>)
     = Inl (IndexError ''list index out of range'')
   \<and> fst (generate_image
          (\<lambda>req. Inr \<lparr>status_code = 200, reason = ''OK'', url = MONSTER_API_BASE,
                       resp_text = [], content = [],
                       json = Inr \<lparr>json_text = None, json_output = Some []\<rparr>\<rparr>)
          ''a red kite'' ''sk-1234567890'' ''output.png''
          \<lparr>fs = Map.empty, write_error = Map.empty, MONSTER_API_KEY = None,
           stdout = [], stderr = [], requests_log = []\<rparr>)
     \<noteq> Inl (Exception ''No image URL in response.'')"
  by (simp add: generate_image_def Let_def)

section \<open>Transcribing\<close>

lemma strip_decomp:
  "\<exists>pre suf. s = pre @ strip s @ suf \<and> (\<forall>c \<in> set pre. isspace c) \<and> (\<forall>c \<in> set suf. isspace c)"
proof -
  let ?d = "dropWhile isspace s"
  let ?pre = "takeWhile isspace s"
  let ?suf = "rev (takeWhile isspace (rev ?d))"
  have "rev ?d = takeWhile isspace (rev ?d) @ dropWhile isspace (rev ?d)"
    by simp
  then have "rev (rev ?d) = rev (takeWhile isspace (rev ?d) @ dropWhile isspace (rev ?d))"
    by (rule arg_cong)
  then have d: "?d = strip s @ ?suf"
    by (simp only: rev_rev_ident rev_append strip_def)
  have "s = ?pre @ ?d" by simp
  with d have whole: "s = ?pre @ strip s @ ?suf" by simp
  have pre: "\<forall>c \<in> set ?pre. isspace c"
    by (auto dest: set_takeWhileD)
  have suf: "\<forall>c \<in> set ?suf. isspace c"
    by (auto dest: set_takeWhileD)
  from whole pre suf show ?thesis by blast
qed

lemma strip_edges:
  assumes "strip s \<noteq> []"
  shows "\<not> isspace (hd (strip s)) \<and> \<not> isspace (last (strip s))"
proof
  let ?d = "dropWhile isspace s"
  let ?e = "dropWhile isspace (rev ?d)"
  from assms have e: "?e \<noteq> []" by (simp add: strip_def)
  have d: "?d \<noteq> []"
  proof
    assume empty: "?d = []"
    have "?e = []" unfolding empty by simp
    with e show False by contradiction
  qed
  have "rev ?d = takeWhile isspace (rev ?d) @ ?e" by simp
  then have "rev (rev ?d) = rev (takeWhile isspace (rev ?d) @ ?e)" by (rule arg_cong)
  then have "?d = strip s @ rev (takeWhile isspace (rev ?d))"
    by (simp only: rev_rev_ident rev_append strip_def)
  then have "hd ?d = hd (strip s @ rev (takeWhile isspace (rev ?d)))" by (rule arg_cong)
  with assms have "hd (strip s) = hd ?d" by simp
  moreover from d have "\<not> isspace (hd ?d)" by (rule hd_dropWhile)
  ultimately show "\<not> isspace (hd (strip s))" by simp
  have "last (strip s) = hd ?e" using e by (simp add: strip_def last_rev)
  moreover from e have "\<not> isspace (hd ?e)" by (rule hd_dropWhile)
  ultimately show "\<not> isspace (last (strip s))" by simp
qed

lemma transcribe_audio_ok:
  assumes regular: "fs w audio_path = Some (Regular (Inr f))"
    and resp: "net (PostFiles MONSTER_API_BASE (''Bearer '' @ key) f WHISPER_MODEL) = Inr r"
    and ok: "status_code r = 200"
    and js: "json r = Inr result"
    and field: "json_text result = Some t"
    and nonblank: "strip t \<noteq> []"
  shows "transcribe_audio net audio_path key w
           = (Inr (strip t),
              print (''Transcript: '' @ strip t)
                (call (PostFiles MONSTER_API_BASE (''Bearer '' @ key) f WHISPER_MODEL)
                   (print (''Transcribing audio with model '' @ WHISPER_MODEL @ ''...'') w)))"
  using assms
  by (simp add: transcribe_audio_def Let_def open_rb_def print_def)

lemma requests_log_print: "requests_log (print line w) = requests_log w"
  by (simp add: print_def)

lemma generate_image_log:
  "\<exists>rest. requests_log (snd (generate_image net p key output_path w))
     = requests_log w
         @ PostJson MONSTER_API_BASE (''Bearer '' @ key) ''application/json''
             \<lparr>model = SDXL_MODEL, prompt = p, width = 512, height = 512,
              steps = 20, seed = None\<rparr> # rest"
  by (auto simp add: generate_image_def Let_def call_def print_def open_wb_def
        split: sum.splits list.splits option.splits)

lemma main_requests_log:
  "requests_log (snd (main net a w)) = requests_log (snd (main_try net a w))"
  by (cases "main_try net a w") (auto simp add: main_def print_stderr_def split: sum.splits)

lemma main_try_image_request:
  assumes run: "\<not> dry_run a"
    and k: "get_api_key a w = Inr key"
    and regular: "fs w (audio a) = Some (Regular (Inr f))"
    and resp: "net (PostFiles MONSTER_API_BASE (''Bearer '' @ key) f WHISPER_MODEL) = Inr r"
    and ok: "status_code r = 200"
    and js: "json r = Inr result"
    and field: "json_text result = Some t"
    and nonblank: "strip t \<noteq> []"
  shows "\<exists>rest. requests_log (snd (main_try net a w))
           = requests_log w
               @ PostFiles MONSTER_API_BASE (''Bearer '' @ key) f WHISPER_MODEL
               # PostJson MONSTER_API_BASE (''Bearer '' @ key) ''application/json''
                   \<lparr>model = SDXL_MODEL, prompt = strip t, width = 512, height = 512,
                    steps = 20, seed = None\<rparr>
               # rest"
proof -
  let ?w1 = "print (''Using API key: '' @ mask_key key) w"
  let ?w2 = "print (''Audio file validated: '' @ audio a) ?w1"
  let ?post = "PostFiles MONSTER_API_BASE (''Bearer '' @ key) f WHISPER_MODEL"
  let ?w3 = "print (''Transcript: '' @ strip t)
               (call ?post (print (''Transcribing audio with model '' @ WHISPER_MODEL @ ''...'') ?w2))"
  have va: "validate_audio (audio a) ?w1 = (Inr (), ?w2)"
    using regular
    by (simp add: validate_audio_def path_exists_def path_isfile_def open_rb_def print_def)
  have fs2: "fs ?w2 (audio a) = Some (Regular (Inr f))"
    using regular by (simp add: print_def)
  have tr: "transcribe_audio net (audio a) key ?w2 = (Inr (strip t), ?w3)"
    by (rule transcribe_audio_ok [where net = net and r = r, OF fs2 resp ok js field nonblank])
  have log3: "requests_log ?w3 = requests_log w @ [?post]"
    by (simp add: print_def call_def)
  obtain res w4 where gi: "generate_image net (strip t) key (out a) ?w3 = (res, w4)"
    by (cases "generate_image net (strip t) key (out a) ?w3")
  from generate_image_log [of net "strip t" key "out a" ?w3] gi
  obtain rest where log4: "requests_log w4 = requests_log ?w3
         @ PostJson MONSTER_API_BASE (''Bearer '' @ key) ''application/json''
             \<lparr>model = SDXL_MODEL, prompt = strip t, width = 512, height = 512,
              steps = 20, seed = None\<rparr> # rest"
    by auto
  have "requests_log (snd (main_try net a w)) = requests_log w4"
    by (cases res)
       (simp_all only: main_try_def k run Let_def va tr gi sum.case prod.case if_False
          snd_conv requests_log_print)
  with log4 log3 show ?thesis by simp
qed

text \<open>
  C10: when the transcription response has status 200 and its parsed \<open>text\<close> field is
  not blank after trimming, \<open>transcribe_audio\<close> returns that text without its leading
  and trailing whitespace: the result is the field with only whitespace cut from both
  ends, and neither its first nor its last character is whitespace.  In a full run the
  prompt of the image request that follows is this trimmed text.
\<close>

theorem transcribe_audio_strips:
  assumes regular: "fs w audio_path = Some (Regular (Inr f))"
    and resp: "net (PostFiles MONSTER_API_BASE (''Bearer '' @ key) f WHISPER_MODEL) = Inr r"
    and ok: "status_code r = 200"
    and js: "json r = Inr result"
    and field: "json_text result = Some t"
    and nonblank: "strip t \<noteq> []"
  shows "fst (transcribe_audio net audio_path key w) = Inr (strip t)
         \<and> \<not> isspace (hd (strip t)) \<and> \<not> isspace (last (strip t))
         \<and> (\<exists>pre suf. t = pre @ strip t @ suf
               \<and> (\<forall>c \<in> set pre. isspace c) \<and> (\<forall>c \<in> set suf. isspace c))
         \<and> (\<forall>a. \<not> dry_run a \<and> audio a = audio_path \<and> get_api_key a w = Inr key \<longrightarrow>
               (\<exists>rest. requests_log (snd (main net a w))
                  = requests_log w
                      @ PostFiles MONSTER_API_BASE (''Bearer '' @ key) f WHISPER_MODEL
                      # PostJson MONSTER_API_BASE (''Bearer '' @ key) ''application/json''
                          \<lparr>model = SDXL_MODEL, prompt = strip t, width = 512, height = 512,
                           steps = 20, seed = None\<rparr>
                      # rest))"
proof (intro conjI allI impI)
  show "fst (transcribe_audio net audio_path key w) = Inr (strip t)"
    by (simp add: transcribe_audio_ok
          [where net = net and r = r, OF regular resp ok js field nonblank])
next
  from strip_edges [OF nonblank]
  show "\<not> isspace (hd (strip t))" and "\<not> isspace (last (strip t))" by simp_all
next
  show "\<exists>pre suf. t = pre @ strip t @ suf
          \<and> (\<forall>c \<in> set pre. isspace c) \<and> (\<forall>c \<in> set suf. isspace c)"
    by (rule strip_decomp)
next
  fix a
  assume a: "\<not> dry_run a \<and> audio a = audio_path \<and> get_api_key a w = Inr key"
  then have reg: "fs w (audio a) = Some (Regular (Inr f))" using regular by simp
  from a have run: "\<not> dry_run a" and k: "get_api_key a w = Inr key" by simp_all
  from main_try_image_request [where net = net and r = r, OF run k reg resp ok js field nonblank]
  show "\<exists>rest. requests_log (snd (main net a w))
          = requests_log w
              @ PostFiles MONSTER_API_BASE (''Bearer '' @ key) f WHISPER_MODEL
              # PostJson MONSTER_API_BASE (''Bearer '' @ key) ''application/json''
                  \<lparr>model = SDXL_MODEL, prompt = strip t, width = 512, height = 512,
                   steps = 20, seed = None\<rparr>
              # rest"
    by (simp only: main_requests_log)
qed

theorem transcribe_audio_strips_witness:
  "fst (transcribe_audio
          (\<lambda>req. case req of
             PostFiles u h f m \<Rightarrow>
               Inr \<lparr>status_code = 200, reason = ''OK'', url = u, resp_text = [], content = [],
                    json = Inr \<lparr>json_text = Some ''  a red kite '', json_output = None\<rparr>\<rparr>
           | PostJson u h c b \<Rightarrow> Inl (RequestException ''unreachable'')
           | Get u \<Rightarrow> Inl (RequestException ''unreachable''))
          ''a.wav'' ''sk-1234567890''
          \<lparr>fs = [''a.wav'' \<mapsto> Regular (Inr ''RIFF'')], write_error = Map.empty,
           MONSTER_API_KEY = None, stdout = [], stderr = [], requests_log = []\<rparr>)
     = Inr ''a red kite''
   \<and> (\<exists>rest. requests_log (snd (main
          (\<lambda>req. case req of
             PostFiles u h f m \<Rightarrow>
               Inr \<lparr>status_code = 200, reason = ''OK'', url = u, resp_text = [], content = [],
                    json = Inr \<lparr>json_text = Some ''  a red kite '', json_output = None\<rparr>\<rparr>
           | PostJson u h c b \<Rightarrow> Inl (RequestException ''unreachable'')
           | Get u \<Rightarrow> Inl (RequestException ''unreachable''))
          \<lparr>audio = ''a.wav'', out = ''output.png'', api_key = Some ''sk-1234567890'',
           dry_run = False\<rparr>
          \<lparr>fs = [''a.wav'' \<mapsto> Regular (Inr ''RIFF'')], write_error = Map.empty,
           MONSTER_API_KEY = None, stdout = [], stderr = [], requests_log = []\<rparr>))
        = PostFiles MONSTER_API_BASE ''Bearer sk-1234567890'' ''RIFF'' WHISPER_MODEL
          # PostJson MONSTER_API_BASE ''Bearer sk-1234567890'' ''application/json''
              \<lparr>model = SDXL_MODEL, prompt = ''a red kite'', width = 512, height = 512,
               steps = 20, seed = None\<rparr>
          # rest)"
proof -
  let ?net = "\<lambda>req. case req of
             PostFiles u h f m \<Rightarrow>
               Inr \<lparr>status_code = 200, reason = ''OK'', url = u, resp_text = [], content = [],
                    json = Inr \<lparr>json_text = Some ''  a red kite '', json_output = None\<rparr>\<rparr>
           | PostJson u h c b \<Rightarrow> Inl (RequestException ''unreachable'')
           | Get u \<Rightarrow> Inl (RequestException ''unreachable'')"
  let ?w = "\<lparr>fs = [''a.wav'' \<mapsto> Regular (Inr ''RIFF'')], write_error = Map.empty,
           MONSTER_API_KEY = None, stdout = [], stderr = [], requests_log = []\<rparr>"
  let ?a = "\<lparr>audio = ''a.wav'', out = ''output.png'', api_key = Some ''sk-1234567890'',
           dry_run = False\<rparr>"
  let ?r = "\<lparr>status_code = 200, reason = ''OK'', url = MONSTER_API_BASE, resp_text = [],
            content = [],
            json = Inr \<lparr>json_text = Some ''  a red kite '', json_output = None\<rparr>\<rparr>"
  have trimmed: "strip ''  a red kite '' = ''a red kite''"
    by code_simp
  have reg: "fs ?w ''a.wav'' = Some (Regular (Inr ''RIFF''))" by simp
  have resp: "?net (PostFiles MONSTER_API_BASE (''Bearer '' @ ''sk-1234567890'') ''RIFF''
                     WHISPER_MODEL) = Inr ?r"
    by simp
  have ok: "status_code ?r = 200" by simp
  have js: "json ?r = Inr \<lparr>json_text = Some ''  a red kite '', json_output = None\<rparr>"
    by simp
  have field: "json_text \<lparr>json_text = Some ''  a red kite '', json_output = None\<rparr>
                 = Some ''  a red kite ''"
    by simp
  have nonblank: "strip ''  a red kite '' \<noteq> []" by (simp add: trimmed)
  have k: "get_api_key ?a ?w = Inr ''sk-1234567890''" by (simp add: get_api_key_def)
  note T = transcribe_audio_strips [where net = "?net" and r = "?r",
             OF reg resp ok js field nonblank]
  from T have first: "fst (transcribe_audio ?net ''a.wav'' ''sk-1234567890'' ?w)
                        = Inr (strip ''  a red kite '')"
    by (rule conjunct1)
  note T5 = T [THEN conjunct2, THEN conjunct2, THEN conjunct2, THEN conjunct2]
  from T5 have "\<not> dry_run ?a \<and> audio ?a = ''a.wav''
                   \<and> get_api_key ?a ?w = Inr ''sk-1234567890'' \<longrightarrow>
               (\<exists>rest. requests_log (snd (main ?net ?a ?w))
                  = requests_log ?w
                      @ PostFiles MONSTER_API_BASE (''Bearer '' @ ''sk-1234567890'') ''RIFF''
                          WHISPER_MODEL
                      # PostJson MONSTER_API_BASE (''Bearer '' @ ''sk-1234567890'')
                          ''application/json''
                          \<lparr>model = SDXL_MODEL, prompt = strip ''  a red kite '', width = 512,
                           height = 512, steps = 20, seed = None\<rparr>
                      # rest)"
    by (rule spec)
  with k have second: "\<exists>rest. requests_log (snd (main ?net ?a ?w))
                  = requests_log ?w
                      @ PostFiles MONSTER_API_BASE (''Bearer '' @ ''sk-1234567890'') ''RIFF''
                          WHISPER_MODEL
                      # PostJson MONSTER_API_BASE (''Bearer '' @ ''sk-1234567890'')
                          ''application/json''
                          \<lparr>model = SDXL_MODEL, prompt = strip ''  a red kite '', width = 512,
                           height = 512, steps = 20, seed = None\<rparr>
                      # rest"
    by simp
  from first second show ?thesis by (simp add: trimmed)
qed

end
